theory Spec2Isabelle
  imports Complex_Main
begin

section \<open>Python floats\<close>

text \<open>
  Both scripts compute with Python \<^verbatim>\<open>float\<close>s, that is IEEE-754 binary64 numbers. A float
  is modelled by its value: not-a-number, the two infinities, or a finite real. The two
  zeros \<^verbatim>\<open>0.0\<close> and \<^verbatim>\<open>-0.0\<close> are one value \<open>Fin 0\<close>: Python's comparisons, \<^verbatim>\<open>abs\<close> and
  the test for a zero divisor do not tell them apart, and the scripts use nothing else
  that could. The integer \<^verbatim>\<open>0\<close> that the scripts store in place of a float is \<open>Fin 0\<close>
  too (\<^verbatim>\<open>0 == 0.0\<close> in Python).
\<close>

datatype pyfloat = NaN | PInf | NInf | Fin real

datatype exn =
    ZeroDivisionError
  | ValueError
  | OverflowError
  | TypeError
  | EOFError
  | ImportError
  | DeviceError nat

text \<open>
  Every arithmetic operation rounds its exact result to the nearest binary64 number,
  ties to the even significand. \<open>binade x\<close> is the exponent \<open>e\<close> with
  \<open>2 ^ e \<le> x < 2 ^ (e + 1)\<close>, held at \<open>-1022\<close> for the subnormal numbers and at \<open>1024\<close> for
  everything beyond the largest float; the significand has 53 bits, so the spacing of
  the floats around \<open>x\<close> is \<open>2 ^ (e - 52)\<close>.
\<close>

definition round_half_even :: "real \<Rightarrow> int" where
  "round_half_even x =
     (let f = \<lfloor>x\<rfloor>; d = x - of_int f
      in if d < 1 / 2 then f else if 1 / 2 < d then f + 1 else if even f then f else f + 1)"

fun exp_up :: "nat \<Rightarrow> real \<Rightarrow> int" where
  "exp_up 0 x = 0"
| "exp_up (Suc n) x = (if 2 \<le> x then exp_up n (x / 2) + 1 else 0)"

fun exp_down :: "nat \<Rightarrow> real \<Rightarrow> int" where
  "exp_down 0 x = 0"
| "exp_down (Suc n) x = (if x < 1 then exp_down n (2 * x) - 1 else 0)"

definition binade :: "real \<Rightarrow> int" where
  "binade x = (if 1 \<le> x then exp_up 1024 x else exp_down 1022 x)"

definition pow2 :: "int \<Rightarrow> real" where
  "pow2 k = (if 0 \<le> k then 2 ^ nat k else 1 / 2 ^ nat (- k))"

definition rnd :: "real \<Rightarrow> pyfloat" where
  "rnd x =
     (if x = 0 then Fin 0
      else let e = binade \<bar>x\<bar>; q = e - 52; n = round_half_even (x / pow2 q)
           in if 1024 \<le> e \<or> (e = 1023 \<and> 2 ^ 53 \<le> \<bar>n\<bar>) then (if 0 < x then PInf else NInf)
              else Fin (of_int n * pow2 q))"

fun is_neg :: "pyfloat \<Rightarrow> bool" where
  "is_neg NInf = True"
| "is_neg (Fin a) = (a < 0)"
| "is_neg _ = False"

definition signed_inf :: "bool \<Rightarrow> pyfloat" where
  "signed_inf neg = (if neg then NInf else PInf)"

text \<open>\<^verbatim>\<open>abs(x)\<close>.\<close>

fun py_abs :: "pyfloat \<Rightarrow> pyfloat" where
  "py_abs NaN = NaN"
| "py_abs PInf = PInf"
| "py_abs NInf = PInf"
| "py_abs (Fin a) = Fin \<bar>a\<bar>"

text \<open>\<^verbatim>\<open>x < y\<close>, \<^verbatim>\<open>x <= y\<close>, \<^verbatim>\<open>x > y\<close>, \<^verbatim>\<open>x >= y\<close>: every comparison with NaN is false.\<close>

fun py_lt :: "pyfloat \<Rightarrow> pyfloat \<Rightarrow> bool" where
  "py_lt NaN y = False"
| "py_lt x NaN = False"
| "py_lt (Fin a) (Fin b) = (a < b)"
| "py_lt x NInf = False"
| "py_lt PInf y = False"
| "py_lt NInf y = True"
| "py_lt (Fin a) PInf = True"

definition py_le :: "pyfloat \<Rightarrow> pyfloat \<Rightarrow> bool" where
  "py_le x y = (x \<noteq> NaN \<and> y \<noteq> NaN \<and> (x = y \<or> py_lt x y))"

definition py_gt :: "pyfloat \<Rightarrow> pyfloat \<Rightarrow> bool" where
  "py_gt x y = py_lt y x"

definition py_ge :: "pyfloat \<Rightarrow> pyfloat \<Rightarrow> bool" where
  "py_ge x y = py_le y x"

text \<open>\<^verbatim>\<open>x * y\<close> and \<^verbatim>\<open>x + y\<close>: they never raise; an overflow gives an infinity.\<close>

definition py_mul :: "pyfloat \<Rightarrow> pyfloat \<Rightarrow> pyfloat" where
  "py_mul x y =
     (case (x, y) of
        (Fin a, Fin b) \<Rightarrow> rnd (a * b)
      | _ \<Rightarrow> if x = NaN \<or> y = NaN \<or> x = Fin 0 \<or> y = Fin 0 then NaN
             else signed_inf (is_neg x \<noteq> is_neg y))"

definition py_add :: "pyfloat \<Rightarrow> pyfloat \<Rightarrow> pyfloat" where
  "py_add x y =
     (case (x, y) of
        (Fin a, Fin b) \<Rightarrow> rnd (a + b)
      | (Fin a, _) \<Rightarrow> y
      | (_, Fin b) \<Rightarrow> x
      | _ \<Rightarrow> if x = y then x else NaN)"

text \<open>
  \<^verbatim>\<open>x / y\<close>: Python raises ZeroDivisionError for a zero divisor, whatever the dividend,
  and otherwise divides as IEEE does.
\<close>

definition py_truediv :: "pyfloat \<Rightarrow> pyfloat \<Rightarrow> exn + pyfloat" where
  "py_truediv x y =
     (if y = Fin 0 then Inl ZeroDivisionError
      else Inr (case (x, y) of
                  (Fin a, Fin b) \<Rightarrow> rnd (a / b)
                | (Fin a, _) \<Rightarrow> if y = NaN then NaN else Fin 0
                | (_, Fin b) \<Rightarrow> if x = NaN then NaN else signed_inf (is_neg x \<noteq> (b < 0))
                | _ \<Rightarrow> NaN))"



section \<open>Configuration of the measurement script\<close>

text \<open>
  The constants of \<^verbatim>\<open>get_conductivity.py\<close>. A decimal literal denotes the float nearest
  to it.
\<close>

definition CORRECTION_FACTOR :: pyfloat where
  "CORRECTION_FACTOR = rnd (4532 / 1000)"

definition c_1e_7 :: pyfloat where
  "c_1e_7 = rnd (1 / 10 ^ 7)"

definition c_1e_9 :: pyfloat where
  "c_1e_9 = rnd (1 / 10 ^ 9)"

definition c_1e_3 :: pyfloat where
  "c_1e_3 = rnd (1 / 10 ^ 3)"








section \<open>One point of the voltage sweep\<close>

text \<open>
  Lines 238 to 251 of \<^verbatim>\<open>run_measurement\<close>, for one reading \<open>(meas_v, meas_i)\<close>:
  \<^verbatim>\<open>
  if abs(meas_i) > 1e-7:
      rs = (meas_v / meas_i) * CORRECTION_FACTOR
  else:
      rs = 0
  if abs(rs) > 1e-9 and self.thickness_m > 0:
      sigma = 1 / (abs(rs) * self.thickness_m)
  else:
      sigma = 0
  results.append([meas_i, meas_v, abs(rs), sigma])
  \<close>
  An exception of a division leaves the loop body before the row is appended.
\<close>

definition sheet_resistance :: "pyfloat \<Rightarrow> pyfloat \<Rightarrow> exn + pyfloat" where
  "sheet_resistance meas_v meas_i =
     (if py_gt (py_abs meas_i) c_1e_7
      then (case py_truediv meas_v meas_i of
              Inl e \<Rightarrow> Inl e
            | Inr q \<Rightarrow> Inr (py_mul q CORRECTION_FACTOR))
      else Inr (Fin 0))"

definition conductivity :: "pyfloat \<Rightarrow> pyfloat \<Rightarrow> exn + pyfloat" where
  "conductivity rs thickness_m =
     (if py_gt (py_abs rs) c_1e_9 \<and> py_gt thickness_m (Fin 0)
      then py_truediv (Fin 1) (py_mul (py_abs rs) thickness_m)
      else Inr (Fin 0))"

text \<open>
  A row of the result list is the four-element list
  \<^verbatim>\<open>[meas_i, meas_v, abs(rs), sigma]\<close>, here a tuple in that order.
\<close>

type_synonym row = "pyfloat \<times> pyfloat \<times> pyfloat \<times> pyfloat"

definition measure_point :: "pyfloat \<Rightarrow> pyfloat \<Rightarrow> pyfloat \<Rightarrow> exn + row" where
  "measure_point thickness_m meas_v meas_i =
     (case sheet_resistance meas_v meas_i of
        Inl e \<Rightarrow> Inl e
      | Inr rs \<Rightarrow>
          (case conductivity rs thickness_m of
             Inl e \<Rightarrow> Inl e
           | Inr sigma \<Rightarrow> Inr (meas_i, meas_v, py_abs rs, sigma)))"

section \<open>Devices, console and the state of a run\<close>

text \<open>
  The stage and the probe are reached through vendor libraries. A device call is
  modelled by what the scripts can observe of it: it raises, or it returns a value. The
  environment \<open>env\<close> fixes, for the \<open>k\<close>-th device call of a run, whether it raises
  and what it returns. It also holds the library functions that the scripts use and
  this repository does not define: Python's \<^verbatim>\<open>float\<close> on a string (\<open>None\<close> for
  ValueError), \<^verbatim>\<open>str.isalnum\<close> on a character, and NumPy's \<^verbatim>\<open>mean\<close>.
\<close>

record env =
  fails :: "nat \<Rightarrow> bool"
  oneshot_data :: "nat \<Rightarrow> pyfloat \<times> pyfloat"
  position :: "nat \<Rightarrow> int"
  homed :: "nat \<Rightarrow> bool"
  to_float :: "string \<Rightarrow> pyfloat option"
  isalnum :: "char \<Rightarrow> bool"
  mean :: "pyfloat list \<Rightarrow> pyfloat"
  has_pylablib :: bool
  has_xtralien :: bool

datatype cell = Text string | Number pyfloat

text \<open>
  The log of a run: every device call that was attempted, in order, and the output
  that the claims are about (the error messages, the CSV file, the plot, the summary
  and the final status of the connection check).
\<close>

datatype event =
    Stage_open
  | Stage_enable_channel
  | Stage_is_homed
  | Stage_get_position
  | Stage_move_to int
  | Stage_wait_move
  | Stage_home
  | Stage_get_status
  | Stage_wait_for_home
  | Stage_close
  | Probe_open
  | Probe_limiti pyfloat
  | Probe_limitv pyfloat
  | Probe_enabled bool
  | Probe_voltage pyfloat
  | Probe_oneshot pyfloat
  | Probe_hello
  | Probe_temp_read
  | Probe_close
  | Print_connect_error exn
  | Print_error exn
  | Print_point_error pyfloat exn
  | Write_csv "cell list list"
  | Save_plot "pyfloat list" "pyfloat list"
  | Print_summary pyfloat pyfloat
  | Print_status bool bool

text \<open>
  The fields of \<^verbatim>\<open>AutomatedProbeSystem\<close> (\<open>stage\<close> and \<open>probe\<close> say whether the handle
  is set), the number of device calls made so far, and the log.
\<close>

record state =
  calls :: nat
  out :: "event list"
  stage :: bool
  probe :: bool
  sample_name :: string
  thickness_m :: "pyfloat option"

definition init_state :: state where
  "init_state =
     \<lparr>calls = 0, out = [], stage = False, probe = False, sample_name = [], thickness_m = None\<rparr>"

type_synonym 'a io = "state \<Rightarrow> (exn + 'a) \<times> state"

definition ret :: "'a \<Rightarrow> 'a io" where
  "ret a = (\<lambda>s. (Inr a, s))"


definition bind :: "'a io \<Rightarrow> ('a \<Rightarrow> 'b io) \<Rightarrow> 'b io" where
  "bind m f = (\<lambda>s. case m s of (Inl e, s') \<Rightarrow> (Inl e, s') | (Inr a, s') \<Rightarrow> f a s')"


definition emit :: "event \<Rightarrow> state \<Rightarrow> state" where
  "emit ev s = s\<lparr>out := out s @ [ev]\<rparr>"

text \<open>
  One device call: it is logged and counted, and it raises if the environment says so.
  It returns its index, under which the environment holds the value read.
\<close>

definition device :: "env \<Rightarrow> event \<Rightarrow> nat io" where
  "device E ev =
     (\<lambda>s. let k = calls s; s' = emit ev (s\<lparr>calls := Suc k\<rparr>)
          in if fails E k then (Inl (DeviceError k), s') else (Inr k, s'))"

text \<open>
  \<^verbatim>\<open>data = self.probe.smu1.oneshot(v)\<close> with \<^verbatim>\<open>float(data[0][0])\<close> and
  \<^verbatim>\<open>float(data[0][1])\<close>: the measured voltage and current.
\<close>

definition oneshot :: "env \<Rightarrow> pyfloat \<Rightarrow> (pyfloat \<times> pyfloat) io" where
  "oneshot E v = bind (device E (Probe_oneshot v)) (\<lambda>k. ret (oneshot_data E k))"

section \<open>Console input\<close>

text \<open>
  Standard input is the list of the lines still to be read; \<^verbatim>\<open>input()\<close> raises
  EOFError at its end. A character is a code point below 256. \<^verbatim>\<open>str.strip\<close> removes
  the whitespace at both ends, and \<open>is_space\<close> holds for the code points below 256 that
  Python counts as whitespace: U+0009 to U+000D, U+001C to U+0020, U+0085 and U+00A0.
\<close>

definition is_space :: "char \<Rightarrow> bool" where
  "is_space c =
     (c \<in> set [CHR '' '', CHR 0x09, CHR 0x0A, CHR 0x0B, CHR 0x0C, CHR 0x0D,
               CHR 0x1C, CHR 0x1D, CHR 0x1E, CHR 0x1F, CHR 0x85, CHR 0xA0])"

definition strip :: "string \<Rightarrow> string" where
  "strip s = rev (dropWhile is_space (rev (dropWhile is_space s)))"

section \<open>get_sample_details\<close>

definition sanitize :: "env \<Rightarrow> string \<Rightarrow> string" where
  "sanitize E name =
     strip (filter (\<lambda>c. isalnum E c \<or> c \<in> set [CHR '' '', CHR ''-'', CHR ''_'']) name)"

text \<open>
  The loop of lines 110 to 122: a line that is no number, or a number with
  \<^verbatim>\<open>thickness_mm <= 0\<close>, is asked again; any other number ends the loop with
  \<^verbatim>\<open>thickness_mm * 1e-3\<close>.
\<close>

fun thickness_loop :: "env \<Rightarrow> string list \<Rightarrow> (exn + pyfloat) \<times> string list" where
  "thickness_loop E [] = (Inl EOFError, [])"
| "thickness_loop E (l # ls) =
     (case to_float E (strip l) of
        None \<Rightarrow> thickness_loop E ls
      | Some thickness_mm \<Rightarrow>
          if py_le thickness_mm (Fin 0) then thickness_loop E ls
          else (Inr (py_mul thickness_mm c_1e_3), ls))"

definition get_sample_details ::
  "env \<Rightarrow> string list \<Rightarrow> state \<Rightarrow> (exn + unit) \<times> string list \<times> state" where
  "get_sample_details E ins s =
     (case ins of
        [] \<Rightarrow> (Inl EOFError, [], s)
      | l # ls \<Rightarrow>
          (let name = strip l;
               s1 = s\<lparr>sample_name := (if name \<noteq> [] then sanitize E name else ''FTO'')\<rparr>
           in case thickness_loop E ls of
                (Inl e, rest) \<Rightarrow> (Inl e, rest, s1)
              | (Inr t, rest) \<Rightarrow> (Inr (), rest, s1\<lparr>thickness_m := Some t\<rparr>)))"

section \<open>connect_devices, move_to_contact, return_home, shutdown\<close>

text \<open>
  Lines 62 to 77: an exception of the stage is caught and printed, and the result is
  False, as it is when the stage is not homed.
\<close>

definition connect_stage :: "env \<Rightarrow> state \<Rightarrow> bool \<times> state" where
  "connect_stage E s =
     (case device E Stage_open s of
        (Inl e, s1) \<Rightarrow> (False, emit (Print_connect_error e) s1)
      | (Inr _, s1) \<Rightarrow>
          (case device E Stage_enable_channel (s1\<lparr>stage := True\<rparr>) of
             (Inl e, s2) \<Rightarrow> (False, emit (Print_connect_error e) s2)
           | (Inr _, s2) \<Rightarrow>
               (case device E Stage_is_homed s2 of
                  (Inl e, s3) \<Rightarrow> (False, emit (Print_connect_error e) s3)
                | (Inr k, s3) \<Rightarrow> (homed E k, s3))))"






section \<open>verify_contact\<close>




section \<open>run_measurement\<close>

text \<open>
  The loop over the set voltages. \<^verbatim>\<open>np.arange\<close> is NumPy's, so the list of voltages is
  a parameter. Any exception inside the loop body is caught there, reported, and the
  loop goes on with the next voltage.
\<close>

fun sweep :: "env \<Rightarrow> pyfloat \<Rightarrow> pyfloat list \<Rightarrow> row list \<Rightarrow> state \<Rightarrow> row list \<times> state" where
  "sweep E t [] results s = (results, s)"
| "sweep E t (set_v # vs) results s =
     (case oneshot E set_v s of
        (Inl e, s1) \<Rightarrow> sweep E t vs results (emit (Print_point_error set_v e) s1)
      | (Inr (meas_v, meas_i), s1) \<Rightarrow>
          (case measure_point t meas_v meas_i of
             Inl e \<Rightarrow> sweep E t vs results (emit (Print_point_error set_v e) s1)
           | Inr r \<Rightarrow> sweep E t vs (results @ [r]) s1))"


section \<open>save_results\<close>

definition csv_header :: "cell list" where
  "csv_header =
     [Text ''Current (A)'', Text ''Voltage (V)'', Text ''Sheet Resistance (Ohm/sq)'',
      Text ''Conductivity (S/m)'']"

definition csv_row :: "row \<Rightarrow> cell list" where
  "csv_row r = (case r of (i, v, rs, sigma) \<Rightarrow> [Number i, Number v, Number rs, Number sigma])"

definition valid_rs :: "row list \<Rightarrow> pyfloat list" where
  "valid_rs data = [rs. (i, v, rs, sigma) \<leftarrow> data, py_lt (Fin 5) rs \<and> py_lt rs (Fin 1000)]"

definition valid_sigma :: "row list \<Rightarrow> pyfloat list" where
  "valid_sigma data =
     [sigma. (i, v, rs, sigma) \<leftarrow> data,
             py_gt sigma (Fin 0) \<and> py_lt (Fin 5) rs \<and> py_lt rs (Fin 1000)]"

definition avg_rs :: "env \<Rightarrow> row list \<Rightarrow> pyfloat" where
  "avg_rs E data = (if valid_rs data \<noteq> [] then mean E (valid_rs data) else Fin 0)"

definition avg_sigma :: "env \<Rightarrow> row list \<Rightarrow> pyfloat" where
  "avg_sigma E data = (if valid_sigma data \<noteq> [] then mean E (valid_sigma data) else Fin 0)"

text \<open>
  The file system is not modelled: \<open>save_results\<close> logs the rows of the CSV file, the
  two series of the plot and the summary.
\<close>

definition save_results :: "env \<Rightarrow> row list \<Rightarrow> unit io" where
  "save_results E data s =
     (Inr (),
      emit (Print_summary (avg_rs E data) (avg_sigma E data))
        (emit (Save_plot (map (\<lambda>r. fst (snd r)) data) (map fst data))
           (emit (Write_csv (csv_header # map csv_row data)) s)))"

section \<open>run and main of the measurement script\<close>



section \<open>The connection check\<close>

text \<open>
  \<^verbatim>\<open>check_connection.py\<close>. Each check imports its library inside the \<^verbatim>\<open>try\<close>, so a
  missing library and every exception of a device call give False.
\<close>

definition check_stage_body :: "env \<Rightarrow> bool io" where
  "check_stage_body E =
     bind (device E Stage_open) (\<lambda>_.
     bind (device E Stage_enable_channel) (\<lambda>_.
     bind (device E Stage_get_position) (\<lambda>kp.
     bind (device E Stage_is_homed) (\<lambda>kh.
     bind (if \<not> homed E kh then
             bind (device E Stage_home) (\<lambda>_.
             bind (device E Stage_get_status) (\<lambda>_.
             bind (device E Stage_wait_for_home) (\<lambda>_.
             bind (device E Stage_get_position) (\<lambda>_. ret ()))))
           else if 10 < \<bar>position E kp\<bar> then
             bind (device E (Stage_move_to 0)) (\<lambda>_.
             bind (device E Stage_wait_move) (\<lambda>_.
             bind (device E Stage_get_position) (\<lambda>_. ret ())))
           else ret ()) (\<lambda>_.
     bind (device E Stage_close) (\<lambda>_. ret True))))))"

definition check_stage :: "env \<Rightarrow> state \<Rightarrow> bool \<times> state" where
  "check_stage E s =
     (if \<not> has_pylablib E then (False, s)
      else (case check_stage_body E s of (Inl e, s') \<Rightarrow> (False, s') | (Inr b, s') \<Rightarrow> (b, s')))"

definition check_probe_body :: "env \<Rightarrow> bool io" where
  "check_probe_body E =
     bind (device E Probe_open) (\<lambda>_.
     bind (device E Probe_hello) (\<lambda>_.
     bind (device E Probe_temp_read) (\<lambda>_.
     bind (device E Probe_close) (\<lambda>_. ret True))))"

definition check_probe :: "env \<Rightarrow> state \<Rightarrow> bool \<times> state" where
  "check_probe E s =
     (if \<not> has_xtralien E then (False, s)
      else (case check_probe_body E s of (Inl e, s') \<Rightarrow> (False, s') | (Inr b, s') \<Rightarrow> (b, s')))"

definition check_main :: "env \<Rightarrow> state \<Rightarrow> int \<times> state" where
  "check_main E s =
     (case check_stage E s of (stage_ok, s1) \<Rightarrow>
      (case check_probe E s1 of (probe_ok, s2) \<Rightarrow>
         (if stage_ok \<and> probe_ok then 0 else 1, emit (Print_status stage_ok probe_ok) s2)))"

section \<open>Predicates and environments used in the statements\<close>

fun is_finite :: "pyfloat \<Rightarrow> bool" where
  "is_finite (Fin a) = True"
| "is_finite _ = False"

definition nonneg_row :: "row \<Rightarrow> bool" where
  "nonneg_row r = (case r of (i, v, rs, sigma) \<Rightarrow> py_ge rs (Fin 0) \<and> py_ge sigma (Fin 0))"



text \<open>
  An environment in which every device call succeeds: each reading is 1 V and 0.5 A,
  the stage is homed at position 0, and both libraries are installed. Its \<open>mean\<close> adds
  from left to right and divides by the length.
\<close>

definition naive_mean :: "pyfloat list \<Rightarrow> pyfloat" where
  "naive_mean xs =
     (case py_truediv (foldl py_add (Fin 0) xs) (Fin (of_nat (length xs))) of
        Inl e \<Rightarrow> NaN
      | Inr m \<Rightarrow> m)"

definition bench :: env where
  "bench =
     \<lparr>fails = (\<lambda>k. False), oneshot_data = (\<lambda>k. (Fin 1, Fin (1 / 2))), position = (\<lambda>k. 0),
      homed = (\<lambda>k. True), to_float = (\<lambda>l. if l = ''1'' then Some (Fin 1) else None),
      isalnum = (\<lambda>c. False), mean = naive_mean, has_pylablib = True, has_xtralien = True\<rparr>"

text \<open>The same environment for a user who types \<^verbatim>\<open>nan\<close>: \<^verbatim>\<open>float("nan")\<close> is NaN.\<close>

definition nan_env :: env where
  "nan_env = bench\<lparr>to_float := (\<lambda>l. if l = ''nan'' then Some NaN else None)\<rparr>"

text \<open>A sweep of one point in \<open>bench\<close> with thickness 1 m: its row and the states around it.\<close>

definition bench_row :: row where
  "bench_row =
     (Fin (1 / 2), Fin 1, Fin (1275644594452693 / 140737488355328),
      Fin (3974933475172547 / 36028797018963968))"



section \<open>Notions for the statements about run and verify_contact\<close>




text \<open>The number of times the stage was sent to a position.\<close>

fun is_move :: "event \<Rightarrow> bool" where
  "is_move (Stage_move_to k) = True"
| "is_move _ = False"

definition count_moves :: "event list \<Rightarrow> nat" where
  "count_moves evs = length (filter is_move evs)"










section \<open>Facts about the float operations\<close>

lemma c_1e_7_value: "c_1e_7 = Fin (944473296573929 / 9444732965739290427392)"
  unfolding c_1e_7_def by code_simp

lemma c_1e_9_value: "c_1e_9 = Fin (4835703278458517 / 4835703278458516698824704)"
  unfolding c_1e_9_def by code_simp

lemma CORRECTION_FACTOR_value: "CORRECTION_FACTOR = Fin (1275644594452693 / 281474976710656)"
  unfolding CORRECTION_FACTOR_def by code_simp

lemma py_le_not_gt: "py_le x y \<Longrightarrow> \<not> py_gt x y"
  by (cases x; cases y) (auto simp: py_le_def py_gt_def)

lemma py_gt_abs_nonzero: "py_gt (py_abs x) (Fin c) \<Longrightarrow> 0 \<le> c \<Longrightarrow> x \<noteq> Fin 0"
  by (auto simp: py_gt_def)

lemma pow2_pos: "0 < pow2 k"
  by (simp add: pow2_def)

lemma round_half_even_nonneg: "0 \<le> x \<Longrightarrow> 0 \<le> round_half_even x"
  by (auto simp: round_half_even_def Let_def)

lemma exp_down_le0: "exp_down n x \<le> 0"
proof (induction n arbitrary: x)
  case 0
  show ?case by simp
next
  case (Suc n)
  have "exp_down n (2 * x) \<le> 0" by (rule Suc.IH)
  then show ?case by simp
qed

lemma rnd_not_NaN: "rnd x \<noteq> NaN"
  by (simp add: rnd_def Let_def)

lemma rnd_nonneg: "0 \<le> x \<Longrightarrow> rnd x = PInf \<or> (\<exists>y. rnd x = Fin y \<and> 0 \<le> y)"
proof (cases "x = 0")
  case True
  have "binade 0 \<le> 0" by (simp add: binade_def exp_down_le0)
  with True show ?thesis by (simp add: rnd_def Let_def round_half_even_def)
next
  case False
  assume "0 \<le> x"
  with False have pos: "0 < x" by simp
  then have "0 \<le> round_half_even (x / pow2 (binade \<bar>x\<bar> - 52))"
    by (intro round_half_even_nonneg) (simp add: pow2_pos less_imp_le)
  with pos show ?thesis
    by (auto simp: rnd_def Let_def pow2_pos less_imp_le)
qed

lemma py_ge0_iff: "py_ge x (Fin 0) \<longleftrightarrow> x = PInf \<or> (\<exists>y. x = Fin y \<and> 0 \<le> y)"
  by (cases x) (auto simp: py_ge_def py_le_def)

lemma py_gt_Fin_iff: "py_gt x (Fin c) \<longleftrightarrow> x = PInf \<or> (\<exists>y. x = Fin y \<and> c < y)"
  by (cases x) (auto simp: py_gt_def)

lemma rnd_ge0: "0 \<le> x \<Longrightarrow> py_ge (rnd x) (Fin 0)"
  using rnd_nonneg [of x] by (simp add: py_ge0_iff)

lemma py_abs_ge0: "x \<noteq> NaN \<Longrightarrow> py_ge (py_abs x) (Fin 0)"
  by (cases x) (simp_all add: py_ge0_iff)

lemma py_mul_ge0:
  assumes "py_gt a (Fin c)" and "0 \<le> c" and "py_gt b (Fin 0)"
  shows "py_ge (py_mul a b) (Fin 0)"
proof -
  from assms(1,2) have a: "a = PInf \<or> (\<exists>y. a = Fin y \<and> 0 < y)"
    by (auto simp: py_gt_Fin_iff)
  from assms(3) have b: "b = PInf \<or> (\<exists>y. b = Fin y \<and> 0 < y)"
    by (auto simp: py_gt_Fin_iff)
  from a b show ?thesis
    by (auto simp: py_mul_def signed_inf_def py_ge0_iff [of PInf] intro!: rnd_ge0)
qed

lemma recip_ge0:
  assumes "py_ge p (Fin 0)" and "py_truediv (Fin 1) p = Inr s"
  shows "py_ge s (Fin 0)"
proof -
  from assms(1) consider "p = PInf" | y where "p = Fin y" "0 \<le> y"
    by (auto simp: py_ge0_iff)
  then show ?thesis
  proof cases
    case 1
    with assms(2) show ?thesis by (auto simp: py_truediv_def py_ge0_iff)
  next
    case 2
    with assms(2) show ?thesis
      by (auto simp: py_truediv_def split: if_splits intro!: rnd_ge0)
  qed
qed

lemma conductivity_ge0: "conductivity rs t = Inr sigma \<Longrightarrow> py_ge sigma (Fin 0)"
proof -
  assume c: "conductivity rs t = Inr sigma"
  show ?thesis
  proof (cases "py_gt (py_abs rs) c_1e_9 \<and> py_gt t (Fin 0)")
    case True
    then have "py_ge (py_mul (py_abs rs) t) (Fin 0)"
      by (intro py_mul_ge0 [where c = "4835703278458517 / 4835703278458516698824704"])
         (simp_all add: c_1e_9_value)
    moreover from True c have "py_truediv (Fin 1) (py_mul (py_abs rs) t) = Inr sigma"
      by (simp add: conductivity_def)
    ultimately show ?thesis by (rule recip_ge0)
  next
    case False
    with c have "sigma = Fin 0" by (auto simp: conductivity_def)
    then show ?thesis by (simp add: py_ge0_iff)
  qed
qed

lemma sheet_resistance_not_NaN:
  assumes "sheet_resistance (Fin v) (Fin i) = Inr rs"
  shows "rs \<noteq> NaN"
proof -
  have "py_mul (rnd x) CORRECTION_FACTOR \<noteq> NaN" for x
    using rnd_not_NaN [of x] rnd_not_NaN
    by (cases "rnd x") (auto simp: py_mul_def CORRECTION_FACTOR_value signed_inf_def)
  with assms show ?thesis
    by (auto simp: sheet_resistance_def py_truediv_def split: if_splits)
qed

lemma measure_point_nonneg:
  assumes "measure_point t (Fin v) (Fin i) = Inr r"
  shows "nonneg_row r"
  using assms
  by (auto simp: measure_point_def nonneg_row_def split: sum.splits
           dest: conductivity_ge0 sheet_resistance_not_NaN intro: py_abs_ge0)

lemma sweep_rows:
  "r \<in> set (fst (sweep E t vs results s)) \<Longrightarrow>
     r \<in> set results
     \<or> (\<exists>k. measure_point t (fst (oneshot_data E k)) (snd (oneshot_data E k)) = Inr r)"
proof (induction vs arbitrary: results s)
  case Nil
  then show ?case by simp
next
  case (Cons set_v vs)
  show ?case
  proof (cases "oneshot E set_v s")
    case (Pair res s1)
    show ?thesis
    proof (cases res)
      case (Inl e)
      with Pair Cons.prems Cons.IH show ?thesis by simp
    next
      case (Inr d)
      obtain meas_v meas_i where d: "d = (meas_v, meas_i)" by (cases d)
      from Pair Inr d have od: "\<exists>k. oneshot_data E k = (meas_v, meas_i)"
        by (auto simp: oneshot_def bind_def ret_def device_def Let_def split: if_splits)
      show ?thesis
      proof (cases "measure_point t meas_v meas_i")
        case (Inl e)
        with Pair Inr d Cons.prems Cons.IH show ?thesis by simp
      next
        case mp: (Inr r')
        with Pair Inr d Cons.prems
        have "r \<in> set (fst (sweep E t vs (results @ [r']) s1))" by simp
        from Cons.IH [OF this] show ?thesis
        proof
          assume "r \<in> set (results @ [r'])"
          with od mp show ?thesis by auto (metis fst_conv snd_conv)
        qed simp
      qed
    qed
  qed
qed




lemma measure_point_row:
  assumes "measure_point t meas_v meas_i = Inr r"
  shows "\<exists>rs sigma. sheet_resistance meas_v meas_i = Inr rs \<and> conductivity rs t = Inr sigma
           \<and> r = (meas_i, meas_v, py_abs rs, sigma)"
  using assms by (auto simp: measure_point_def split: sum.splits)

section \<open>Facts about the device calls and the handles\<close>


lemma device_fst:
  "fst (device E ev s) = (if fails E (calls s) then Inl (DeviceError (calls s)) else Inr (calls s))"
  by (simp add: device_def Let_def)























lemma sheet_resistance_abs:
  assumes "sheet_resistance meas_v meas_i = Inr rs"
  shows "py_ge (py_abs rs) (Fin 0) \<or> (py_abs rs = NaN \<and> py_truediv meas_v meas_i = Inr NaN)"
proof (cases "py_gt (py_abs meas_i) c_1e_7")
  case False
  with assms have "rs = Fin 0" by (simp add: sheet_resistance_def)
  then show ?thesis by (simp add: py_ge0_iff)
next
  case True
  with assms obtain q where q: "py_truediv meas_v meas_i = Inr q"
    and rs: "rs = py_mul q CORRECTION_FACTOR"
    by (auto simp: sheet_resistance_def split: sum.splits)
  show ?thesis
  proof (cases "q = NaN")
    case True
    with q rs show ?thesis by (simp add: py_mul_def)
  next
    case False
    with rs have "rs \<noteq> NaN"
      using rnd_not_NaN
      by (cases q) (auto simp: py_mul_def CORRECTION_FACTOR_value signed_inf_def)
    then show ?thesis by (simp add: py_abs_ge0)
  qed
qed




lemma connect_stage_out:
  "set (out s) \<subseteq> set (out (snd (connect_stage E s)))"
  "calls s \<le> calls (snd (connect_stage E s))"
  by (auto simp: connect_stage_def device_def Let_def emit_def split: if_splits)



section \<open>Facts about verify_contact\<close>



lemma count_moves_append: "count_moves (xs @ ys) = count_moves xs + count_moves ys"
  by (simp add: count_moves_def)




















section \<open>Sheet resistance\<close>

text \<open>
  Claim C1. For every point of the sweep whose measured current satisfies
  \<open>|I| > 1e-7\<close>, the sheet resistance computed at line 240 is \<open>(V / I) * 4.532\<close> in float
  arithmetic: the division does not raise, and its quotient, for finite readings the
  rounded exact quotient, is multiplied by the correction factor.
\<close>

theorem sheet_resistance_formula:
  assumes "py_gt (py_abs meas_i) c_1e_7"
  shows "\<exists>q. py_truediv meas_v meas_i = Inr q
           \<and> sheet_resistance meas_v meas_i = Inr (py_mul q CORRECTION_FACTOR)
           \<and> (\<forall>v i. meas_v = Fin v \<and> meas_i = Fin i \<longrightarrow> q = rnd (v / i))"
proof -
  from assms have nz: "meas_i \<noteq> Fin 0"
    by (auto simp: c_1e_7_value dest: py_gt_abs_nonzero)
  then obtain q where q: "py_truediv meas_v meas_i = Inr q"
    by (simp add: py_truediv_def)
  have "sheet_resistance meas_v meas_i = Inr (py_mul q CORRECTION_FACTOR)"
    using assms q by (simp add: sheet_resistance_def)
  moreover have "\<forall>v i. meas_v = Fin v \<and> meas_i = Fin i \<longrightarrow> q = rnd (v / i)"
    using q nz by (auto simp: py_truediv_def)
  ultimately show ?thesis using q by blast
qed

theorem sheet_resistance_formula_witness:
  "py_gt (py_abs (Fin (1 / 2))) c_1e_7
   \<and> sheet_resistance (Fin 1) (Fin (1 / 2)) = Inr (py_mul (rnd (1 / (1 / 2))) CORRECTION_FACTOR)"
proof -
  have h: "py_gt (py_abs (Fin (1 / 2))) c_1e_7"
    by (simp add: c_1e_7_value py_gt_def)
  from sheet_resistance_formula [OF h, of "Fin 1"] obtain q
    where a: "sheet_resistance (Fin 1) (Fin (1 / 2)) = Inr (py_mul q CORRECTION_FACTOR)"
      and b: "\<forall>v i. Fin 1 = Fin v \<and> Fin (1 / 2) = Fin i \<longrightarrow> q = rnd (v / i)"
    by blast
  from b have "q = rnd (1 / (1 / 2))" by blast
  with a h show ?thesis by blast
qed

section \<open>The guards against division by zero\<close>

text \<open>
  Claim C3. If \<open>|I| \<le> 1e-7\<close> the sheet resistance is 0, and if \<open>|Rs| \<le> 1e-9\<close> the
  conductivity is 0. Neither division is executed under these guards: the result is a
  value and not the ZeroDivisionError that the division raises for a zero divisor.
\<close>

theorem guards_give_zero:
  "(py_le (py_abs meas_i) c_1e_7 \<longrightarrow> sheet_resistance meas_v meas_i = Inr (Fin 0))
   \<and> (py_le (py_abs rs) c_1e_9 \<longrightarrow> conductivity rs t = Inr (Fin 0))"
  by (auto simp: sheet_resistance_def conductivity_def dest: py_le_not_gt)

theorem guards_give_zero_witness:
  "py_le (py_abs (Fin 0)) c_1e_7 \<and> sheet_resistance (Fin 1) (Fin 0) = Inr (Fin 0)
   \<and> py_truediv (Fin 1) (Fin 0) = Inl ZeroDivisionError
   \<and> py_le (py_abs (Fin 0)) c_1e_9 \<and> conductivity (Fin 0) (Fin 1) = Inr (Fin 0)"
proof -
  have h1: "py_le (py_abs (Fin 0)) c_1e_7"
    by (simp add: c_1e_7_value py_le_def)
  have h2: "py_le (py_abs (Fin 0)) c_1e_9"
    by (simp add: c_1e_9_value py_le_def)
  from guards_give_zero [of "Fin 0" "Fin 1" "Fin 0" "Fin 1"]
  show ?thesis using h1 h2 by (simp add: py_truediv_def)
qed

section \<open>Conductivity\<close>

text \<open>
  Claim C2 says that for every sheet resistance \<open>Rs\<close> and every thickness \<open>> 0\<close> the
  conductivity is \<open>1 / (Rs * thickness)\<close>. Line 247 divides by \<open>abs(rs) * thickness\<close>, and
  line 246 does so only if \<open>abs(rs) > 1e-9\<close>: at \<open>Rs = -8\<close> and thickness \<open>0.5\<close> the code
  gives \<open>0.25\<close> where the claim gives \<open>-0.25\<close>, and at \<open>Rs = 2 ^ -40\<close> and thickness \<open>1\<close>
  the code gives \<open>0\<close> where the claim gives \<open>2 ^ 40\<close>.
\<close>

theorem conductivity_counterexample:
  "py_gt (Fin (1 / 2)) (Fin 0)
   \<and> conductivity (Fin (- 8)) (Fin (1 / 2)) = Inr (Fin (1 / 4))
   \<and> py_truediv (Fin 1) (py_mul (Fin (- 8)) (Fin (1 / 2))) = Inr (Fin (- (1 / 4)))
   \<and> py_gt (Fin 1) (Fin 0)
   \<and> conductivity (Fin (1 / 2 ^ 40)) (Fin 1) = Inr (Fin 0)
   \<and> py_truediv (Fin 1) (py_mul (Fin (1 / 2 ^ 40)) (Fin 1)) = Inr (Fin (2 ^ 40))"
  by code_simp

text \<open>
  Claim C2, amended. For every sheet resistance with \<open>|Rs| > 1e-9\<close> and every thickness
  \<open>> 0\<close>, the conductivity is \<open>1 / (|Rs| * thickness)\<close> in float arithmetic; it is a value
  unless the float product is zero, for which the division raises ZeroDivisionError.
\<close>

theorem conductivity_formula:
  assumes "py_gt (py_abs rs) c_1e_9" and "py_gt t (Fin 0)"
  shows "conductivity rs t = py_truediv (Fin 1) (py_mul (py_abs rs) t)
         \<and> (py_mul (py_abs rs) t \<noteq> Fin 0 \<longrightarrow> (\<exists>sigma. conductivity rs t = Inr sigma))"
  using assms by (simp add: conductivity_def py_truediv_def)

theorem conductivity_formula_witness:
  "py_gt (py_abs (Fin (- 8))) c_1e_9 \<and> py_gt (Fin (1 / 2)) (Fin 0)
   \<and> py_mul (py_abs (Fin (- 8))) (Fin (1 / 2)) = Fin 4
   \<and> conductivity (Fin (- 8)) (Fin (1 / 2)) = py_truediv (Fin 1) (Fin 4)"
proof -
  have h1: "py_gt (py_abs (Fin (- 8))) c_1e_9"
    by (simp add: c_1e_9_value py_gt_def)
  have h2: "py_gt (Fin (1 / 2)) (Fin 0)"
    by (simp add: py_gt_def)
  have m: "py_mul (py_abs (Fin (- 8))) (Fin (1 / 2)) = Fin 4"
    by code_simp
  from conductivity_formula [OF h1 h2] h1 h2 m show ?thesis by simp
qed

section \<open>Signs of the stored values\<close>

text \<open>
  Claim C9 says that every row appended to the results has a non-negative sheet
  resistance and a non-negative conductivity. A reading whose voltage is NaN gives the
  row \<open>[1, nan, nan, 0]\<close>, and \<open>nan >= 0\<close> is false.
\<close>

theorem results_nonneg_counterexample:
  "fst (sweep (bench\<lparr>oneshot_data := (\<lambda>k. (NaN, Fin 1))\<rparr>) (Fin 1) [Fin 0] [] init_state)
     = [(Fin 1, NaN, NaN, Fin 0)]
   \<and> \<not> nonneg_row (Fin 1, NaN, NaN, Fin 0)"
  by code_simp

text \<open>
  Claim C9, amended. Every row appended to the results has a non-negative conductivity.
  Its sheet resistance, the absolute value of \<open>rs\<close>, is non-negative unless the float
  quotient \<open>V / I\<close> of that point is NaN (a NaN voltage, or two infinite readings), in
  which case NaN is stored; in particular it is non-negative at every point whose measured
  voltage and current are finite, whatever the other points of the sweep read.
\<close>

theorem results_nonneg:
  "\<forall>r \<in> set (fst (sweep E t voltages [] s)).
      \<exists>k meas_v meas_i rs sigma.
        oneshot_data E k = (meas_v, meas_i)
        \<and> r = (meas_i, meas_v, rs, sigma)
        \<and> py_ge sigma (Fin 0)
        \<and> (py_ge rs (Fin 0) \<or> (rs = NaN \<and> py_truediv meas_v meas_i = Inr NaN))
        \<and> (is_finite meas_v \<and> is_finite meas_i \<longrightarrow> nonneg_row r)"
proof
  fix r assume "r \<in> set (fst (sweep E t voltages [] s))"
  from sweep_rows [OF this] obtain k
    where k: "measure_point t (fst (oneshot_data E k)) (snd (oneshot_data E k)) = Inr r"
    by auto
  obtain meas_v meas_i where od: "oneshot_data E k = (meas_v, meas_i)"
    by (cases "oneshot_data E k")
  with k have mp: "measure_point t meas_v meas_i = Inr r" by simp
  from measure_point_row [OF mp] obtain rs0 sigma
    where sr: "sheet_resistance meas_v meas_i = Inr rs0"
      and co: "conductivity rs0 t = Inr sigma"
      and r: "r = (meas_i, meas_v, py_abs rs0, sigma)"
    by blast
  from co have a: "py_ge sigma (Fin 0)" by (rule conductivity_ge0)
  from sr have b: "py_ge (py_abs rs0) (Fin 0)
                   \<or> (py_abs rs0 = NaN \<and> py_truediv meas_v meas_i = Inr NaN)"
    by (rule sheet_resistance_abs)
  have c: "is_finite meas_v \<and> is_finite meas_i \<longrightarrow> nonneg_row r"
  proof
    assume "is_finite meas_v \<and> is_finite meas_i"
    then obtain v i where "meas_v = Fin v" "meas_i = Fin i"
      by (metis is_finite.elims(2))
    with mp show "nonneg_row r" by (auto intro: measure_point_nonneg)
  qed
  from od r a b c
  show "\<exists>k meas_v meas_i rs sigma.
        oneshot_data E k = (meas_v, meas_i)
        \<and> r = (meas_i, meas_v, rs, sigma)
        \<and> py_ge sigma (Fin 0)
        \<and> (py_ge rs (Fin 0) \<or> (rs = NaN \<and> py_truediv meas_v meas_i = Inr NaN))
        \<and> (is_finite meas_v \<and> is_finite meas_i \<longrightarrow> nonneg_row r)"
    by blast
qed

theorem results_nonneg_witness:
  "fst (sweep bench (Fin 1) [Fin 0] [] init_state) = [bench_row]
   \<and> oneshot_data bench 0 = (Fin 1, Fin (1 / 2))
   \<and> is_finite (Fin 1) \<and> is_finite (Fin (1 / 2))
   \<and> nonneg_row bench_row"
proof -
  have v: "fst (sweep bench (Fin 1) [Fin 0] [] init_state) = [bench_row]"
    by code_simp
  have o: "oneshot_data bench k = (Fin 1, Fin (1 / 2))" for k
    by (simp add: bench_def)
  from results_nonneg [of bench "Fin 1" "[Fin 0]" init_state] v
  obtain k meas_v meas_i
    where "oneshot_data bench k = (meas_v, meas_i)"
      and "is_finite meas_v \<and> is_finite meas_i \<longrightarrow> nonneg_row bench_row"
    by auto
  with o [of k] have "nonneg_row bench_row" by simp
  with v o [of 0] show ?thesis by simp
qed

section \<open>The CSV file\<close>




section \<open>The summary\<close>

text \<open>
  Claim C8. The average sheet resistance of the summary is the mean of the recorded
  sheet resistances strictly between 5 and 1000, and 0 if there is none; the average
  conductivity is the mean of the conductivities of those same rows that are positive
  as well, and 0 if there is none. The CSV file holds every row: the filter is applied
  to the summary only.
\<close>

theorem summary_averages:
  "out (snd (save_results E data s)) =
     out s @ [Write_csv (csv_header # map csv_row data),
              Save_plot (map (\<lambda>(i, v, rs, sigma). v) data) (map (\<lambda>(i, v, rs, sigma). i) data),
              Print_summary (avg_rs E data) (avg_sigma E data)]
   \<and> avg_rs E data =
       (let xs = map (\<lambda>(i, v, rs, sigma). rs)
                   (filter (\<lambda>(i, v, rs, sigma). py_lt (Fin 5) rs \<and> py_lt rs (Fin 1000)) data)
        in if xs = [] then Fin 0 else mean E xs)
   \<and> avg_sigma E data =
       (let xs = map (\<lambda>(i, v, rs, sigma). sigma)
                   (filter (\<lambda>(i, v, rs, sigma). py_lt (Fin 0) sigma)
                      (filter (\<lambda>(i, v, rs, sigma). py_lt (Fin 5) rs \<and> py_lt rs (Fin 1000)) data))
        in if xs = [] then Fin 0 else mean E xs)"
proof -
  have a: "valid_rs data = map (\<lambda>(i, v, rs, sigma). rs)
             (filter (\<lambda>(i, v, rs, sigma). py_lt (Fin 5) rs \<and> py_lt rs (Fin 1000)) data)"
    unfolding valid_rs_def by (induction data) (auto split: if_splits)
  have b: "valid_sigma data = map (\<lambda>(i, v, rs, sigma). sigma)
             (filter (\<lambda>(i, v, rs, sigma). py_lt (Fin 0) sigma)
                (filter (\<lambda>(i, v, rs, sigma). py_lt (Fin 5) rs \<and> py_lt rs (Fin 1000)) data))"
    unfolding valid_sigma_def by (induction data) (auto simp: py_gt_def split: if_splits)
  have p: "(\<lambda>r. fst (snd r)) = (\<lambda>(i, v, rs, sigma). v)" "fst = (\<lambda>(i, v, rs, sigma). i)"
    by (auto simp: fun_eq_iff)
  have c: "avg_rs E data =
       (let xs = map (\<lambda>(i, v, rs, sigma). rs)
                   (filter (\<lambda>(i, v, rs, sigma). py_lt (Fin 5) rs \<and> py_lt rs (Fin 1000)) data)
        in if xs = [] then Fin 0 else mean E xs)"
    by (simp add: avg_rs_def a Let_def)
  have d: "avg_sigma E data =
       (let xs = map (\<lambda>(i, v, rs, sigma). sigma)
                   (filter (\<lambda>(i, v, rs, sigma). py_lt (Fin 0) sigma)
                      (filter (\<lambda>(i, v, rs, sigma). py_lt (Fin 5) rs \<and> py_lt rs (Fin 1000)) data))
        in if xs = [] then Fin 0 else mean E xs)"
    by (simp only: avg_sigma_def b Let_def) simp
  have e: "out (snd (save_results E data s)) =
     out s @ [Write_csv (csv_header # map csv_row data),
              Save_plot (map (\<lambda>(i, v, rs, sigma). v) data) (map (\<lambda>(i, v, rs, sigma). i) data),
              Print_summary (avg_rs E data) (avg_sigma E data)]"
    by (simp add: save_results_def emit_def p)
  from c d e show ?thesis by blast
qed

section \<open>Exit code of the connection check\<close>

text \<open>
  Claim C7. \<open>main\<close> of the connection check reports the status of both devices and
  returns 0 if and only if the stage check and the probe check both return True, and
  1 in every other case.
\<close>

theorem check_main_exit_code:
  "fst (check_main E s)
     = (if fst (check_stage E s) \<and> fst (check_probe E (snd (check_stage E s))) then 0 else 1)
   \<and> (fst (check_main E s) = 0
        \<longleftrightarrow> fst (check_stage E s) \<and> fst (check_probe E (snd (check_stage E s))))
   \<and> out (snd (check_main E s))
       = out (snd (check_probe E (snd (check_stage E s))))
         @ [Print_status (fst (check_stage E s)) (fst (check_probe E (snd (check_stage E s))))]"
  by (simp add: check_main_def emit_def split: prod.splits)

section \<open>The thickness entered by the user\<close>

text \<open>
  Claim C10 says that \<open>thickness_m\<close> is strictly positive when \<open>get_sample_details\<close>
  returns. The loop rejects a number only if \<^verbatim>\<open>thickness_mm <= 0\<close>, which is false for
  NaN: for the input \<^verbatim>\<open>nan\<close> the function returns with \<open>thickness_m\<close> NaN, the test
  \<^verbatim>\<open>self.thickness_m > 0\<close> of the sweep fails, and every conductivity is 0.
\<close>

theorem thickness_nan_accepted:
  "get_sample_details nan_env ['''', ''nan''] init_state
     = (Inr (), [], init_state\<lparr>sample_name := ''FTO'', thickness_m := Some NaN\<rparr>)
   \<and> \<not> py_gt NaN (Fin 0)
   \<and> conductivity (Fin 10) NaN = Inr (Fin 0)"
  by code_simp


section \<open>Exceptions of device calls\<close>




section \<open>Retries of the contact verification\<close>




end
